theory Spec2Isabelle
  imports Complex_Main "HOL-Library.AList" "HOL-Library.Sublist"
begin

section \<open>Data model\<close>

text \<open>
  A cell of a numeric pandas column. \<open>Null\<close> is the missing value (NaN); \<open>Num\<close> is a
  number, taken as an exact real (rounding and overflow of binary floating point are not
  represented, and zero carries no sign); \<open>PInf\<close> and \<open>NInf\<close> are the two infinities
  that the element-wise division of numpy yields for a non-zero number over zero.
\<close>

datatype cell = Null | Num real | PInf | NInf

type_synonym series = "cell list"

text \<open>
  A DataFrame: the row labels and the columns in their order, each column a series with
  one cell per row. Column names are the source's strings with the Turkish letters
  written in ASCII (dotless i as i, dotted capital I as I, o/u with diaeresis as o/u,
  s/c with cedilla as s/c, soft g as g); the 21 names read and the 32 names written by
  \<open>compute_ratios\<close> stay pairwise distinct under this spelling.
\<close>

record dataframe =
  index :: "nat list"
  columns :: "(string \<times> series) list"

definition wf_df :: "dataframe \<Rightarrow> bool" where
  "wf_df df = list_all (\<lambda>(k, s). length s = length (index df)) (columns df)"

text \<open>
  What a lookup raises, uncaught by the script: \<open>KeyError\<close> of \<open>df[k]\<close> with the
  column name that was looked up, of \<open>df[names]\<close> with the names that are absent, and of
  \<open>df.loc[labels]\<close> with the row labels that are absent.
\<close>

datatype error = KeyError string | KeyErrorList "string list" | KeyErrorLabels "nat list"

section \<open>Element-wise arithmetic\<close>

fun cell_add :: "cell \<Rightarrow> cell \<Rightarrow> cell" where
  "cell_add Null _ = Null"
| "cell_add _ Null = Null"
| "cell_add (Num a) (Num b) = Num (a + b)"
| "cell_add (Num a) PInf = PInf"
| "cell_add (Num a) NInf = NInf"
| "cell_add PInf (Num b) = PInf"
| "cell_add NInf (Num b) = NInf"
| "cell_add PInf PInf = PInf"
| "cell_add NInf NInf = NInf"
| "cell_add PInf NInf = Null"
| "cell_add NInf PInf = Null"

fun cell_neg :: "cell \<Rightarrow> cell" where
  "cell_neg Null = Null"
| "cell_neg (Num a) = Num (- a)"
| "cell_neg PInf = NInf"
| "cell_neg NInf = PInf"

definition cell_sub :: "cell \<Rightarrow> cell \<Rightarrow> cell" where
  "cell_sub a b = cell_add a (cell_neg b)"

text \<open>Product of a scalar constant and a cell (\<open>k * x\<close> and \<open>x * k\<close> alike).\<close>

fun cell_scale :: "real \<Rightarrow> cell \<Rightarrow> cell" where
  "cell_scale k Null = Null"
| "cell_scale k (Num a) = Num (k * a)"
| "cell_scale k PInf = (if 0 < k then PInf else if k < 0 then NInf else Null)"
| "cell_scale k NInf = (if 0 < k then NInf else if k < 0 then PInf else Null)"

text \<open>
  True division of two cells as numpy performs it on floats: nothing is raised, a
  non-zero number over zero is an infinity, zero over zero and infinity over infinity
  are NaN.
\<close>

fun cell_div :: "cell \<Rightarrow> cell \<Rightarrow> cell" where
  "cell_div Null _ = Null"
| "cell_div _ Null = Null"
| "cell_div (Num a) (Num b) =
     (if b \<noteq> 0 then Num (a / b)
      else if 0 < a then PInf else if a < 0 then NInf else Null)"
| "cell_div (Num a) PInf = Num 0"
| "cell_div (Num a) NInf = Num 0"
| "cell_div PInf (Num b) = (if 0 \<le> b then PInf else NInf)"
| "cell_div NInf (Num b) = (if 0 \<le> b then NInf else PInf)"
| "cell_div PInf PInf = Null"
| "cell_div PInf NInf = Null"
| "cell_div NInf PInf = Null"
| "cell_div NInf NInf = Null"

text \<open>
  Series arithmetic. The operands are always columns of one frame (or computed from
  them), so they share the frame's index and pandas combines them position by position.
\<close>

definition s_add :: "series \<Rightarrow> series \<Rightarrow> series" where
  "s_add xs ys = map2 cell_add xs ys"

definition s_sub :: "series \<Rightarrow> series \<Rightarrow> series" where
  "s_sub xs ys = map2 cell_sub xs ys"

definition s_div :: "series \<Rightarrow> series \<Rightarrow> series" where
  "s_div xs ys = map2 cell_div xs ys"

definition s_neg :: "series \<Rightarrow> series" where
  "s_neg xs = map cell_neg xs"

definition s_scale :: "real \<Rightarrow> series \<Rightarrow> series" where
  "s_scale k xs = map (cell_scale k) xs"

text \<open>\<open>k - xs\<close> for a scalar \<open>k\<close>.\<close>

definition s_rsub :: "real \<Rightarrow> series \<Rightarrow> series" where
  "s_rsub k xs = map (\<lambda>c. cell_sub (Num k) c) xs"

text \<open>\<open>Series.replace(old, new)\<close>, \<open>Series.fillna(v)\<close> and \<open>isna\<close>.\<close>

definition s_replace :: "cell \<Rightarrow> cell \<Rightarrow> series \<Rightarrow> series" where
  "s_replace old new xs = map (\<lambda>c. if c = old then new else c) xs"

definition s_fillna :: "cell \<Rightarrow> series \<Rightarrow> series" where
  "s_fillna v xs = map (\<lambda>c. if c = Null then v else c) xs"

definition isna :: "cell \<Rightarrow> bool" where
  "isna c = (c = Null)"

section \<open>The null-safe division primitive\<close>

definition safe_div :: "series \<Rightarrow> series \<Rightarrow> series" where
  "safe_div num denom =
     (let denom_replaced = s_replace (Num 0) Null denom;
          result = s_div num denom_replaced
      in s_fillna (Num 0) result)"

section \<open>Column access and the ratio engine\<close>

text \<open>Sequencing of steps that may raise: the first error ends the computation.\<close>

definition bindE :: "error + 'a \<Rightarrow> ('a \<Rightarrow> error + 'b) \<Rightarrow> error + 'b" where
  "bindE m f = (case m of Inl e \<Rightarrow> Inl e | Inr x \<Rightarrow> f x)"

text \<open>
  An operator applied to operand expressions that may raise; the operands are evaluated
  from left to right, as Python does.
\<close>

definition lift1 :: "('a \<Rightarrow> 'b) \<Rightarrow> error + 'a \<Rightarrow> error + 'b" where
  "lift1 f a = bindE a (\<lambda>x. Inr (f x))"

definition lift2 :: "('a \<Rightarrow> 'b \<Rightarrow> 'c) \<Rightarrow> error + 'a \<Rightarrow> error + 'b \<Rightarrow> error + 'c" where
  "lift2 f a b = bindE a (\<lambda>x. bindE b (\<lambda>y. Inr (f x y)))"

text \<open>\<open>df[k]\<close>: the column named \<open>k\<close>, or \<open>KeyError\<close> when the frame has none.\<close>

definition col :: "dataframe \<Rightarrow> string \<Rightarrow> error + series" where
  "col df k = (case map_of (columns df) k of None \<Rightarrow> Inl (KeyError k) | Some s \<Rightarrow> Inr s)"

text \<open>
  \<open>df[k] = s\<close>: an existing column is replaced where it stands, a new one is appended
  after the last column.
\<close>

definition setcol :: "dataframe \<Rightarrow> string \<Rightarrow> series \<Rightarrow> dataframe" where
  "setcol df k s = df\<lparr>columns := AList.update k s (columns df)\<rparr>"

definition assign :: "dataframe \<Rightarrow> string \<Rightarrow> error + series \<Rightarrow> error + dataframe" where
  "assign df k e = bindE e (\<lambda>s. Inr (setcol df k s))"

text \<open>
  \<open>compute_ratios\<close>, statement by statement. The frame is updated in place in the
  source; here each assignment yields the updated frame, bound again to \<open>df\<close>. A
  \<open>KeyError\<close> leaves through \<open>Inl\<close>; the caller has no handler, so the frame as it
  stood at that point is seen by nobody.
\<close>

definition compute_ratios :: "dataframe \<Rightarrow> error + dataframe" where
  "compute_ratios df =
   bindE (lift2 s_add (col df ''Donen Varliklar'') (col df ''Duran Varliklar'')) (\<lambda>total_assets.
   bindE (lift2 s_add (col df ''Kisa Vadeli Yukumlulukler'') (col df ''Uzun Vadeli Yukumlulukler'')) (\<lambda>total_liab.
   bindE (assign df ''Cari Oran''
     (lift2 safe_div (col df ''Donen Varliklar'') (col df ''Kisa Vadeli Yukumlulukler''))) (\<lambda>df.
   bindE (assign df ''Asit Test Orani''
     (lift2 safe_div
        (lift2 s_sub (lift2 s_sub (col df ''Donen Varliklar'') (col df ''Stoklar''))
           (col df ''Diger Donen Varliklar''))
        (col df ''Kisa Vadeli Yukumlulukler''))) (\<lambda>df.
   bindE (assign df ''Nakit Orani''
     (lift2 safe_div (col df ''Nakit ve Nakit Benzerleri'') (col df ''Kisa Vadeli Yukumlulukler''))) (\<lambda>df.
   bindE (assign df ''Faaliyet Kar Marji''
     (lift2 safe_div (lift1 (s_scale 100) (col df ''FAALIYET KARI (ZARARI)''))
        (col df ''Satis Gelirleri''))) (\<lambda>df.
   bindE (assign df ''Esas Faaliyet Kar Marji''
     (lift2 safe_div (lift1 (s_scale 100) (col df ''Net Faaliyet Kar/Zarari''))
        (col df ''Satis Gelirleri''))) (\<lambda>df.
   bindE (assign df ''Brut Kar Marji (%)''
     (lift2 safe_div (lift1 (s_scale 100) (col df ''Ticari Faaliyetlerden Brut Kar (Zarar)''))
        (col df ''Satis Gelirleri''))) (\<lambda>df.
   bindE (assign df ''Net Kar Marji''
     (lift2 safe_div (lift1 (s_scale 100) (col df ''Donem Net Kar/Zarari''))
        (col df ''Satis Gelirleri''))) (\<lambda>df.
   bindE (assign df ''FAVOK / Kisa Vade Borc''
     (lift2 safe_div (col df ''FAALIYET KARI (ZARARI)'') (col df ''Kisa Vadeli Yukumlulukler''))) (\<lambda>df.
   bindE (assign df ''Aktif Devir Hizi''
     (lift2 safe_div (col df ''Satis Gelirleri'') (Inr total_assets))) (\<lambda>df.
   bindE (assign df ''Alacak Devir Hizi''
     (lift2 safe_div (col df ''Satis Gelirleri'') (col df ''Ticari Alacaklar''))) (\<lambda>df.
   bindE (assign df ''Donen Varliklar Devir Hizi''
     (lift2 safe_div (col df ''Donen Varliklar'') (col df ''Satis Gelirleri''))) (\<lambda>df.
   bindE (assign df ''Ticari Borclar Devir Hizi''
     (lift1 s_neg
        (lift2 safe_div (col df ''Satislarin Maliyeti (-)'') (col df ''Ticari Borclar'')))) (\<lambda>df.
   bindE (assign df ''Stok Devir Hizi''
     (lift1 s_neg
        (lift2 safe_div (col df ''Satislarin Maliyeti (-)'') (col df ''Stoklar'')))) (\<lambda>df.
   bindE (assign df ''Borc Kaynak Orani''
     (lift1 (s_scale 100)
        (lift2 safe_div (Inr total_liab) (col df ''Toplam Ozkaynaklar'')))) (\<lambda>df.
   bindE (assign df ''Finansal Kaldirac''
     (lift1 (s_scale 100) (lift2 safe_div (Inr total_liab) (Inr total_assets)))) (\<lambda>df.
   bindE (assign df ''Ozsermaye / Aktif''
     (lift2 safe_div (col df ''Toplam Ozkaynaklar'') (Inr total_assets))) (\<lambda>df.
   bindE (assign df ''Ozsermaye / Maddi Duran Varliklar''
     (lift2 safe_div (col df ''Toplam Ozkaynaklar'') (col df ''Maddi Duran Varliklar''))) (\<lambda>df.
   bindE (assign df ''Duran Varliklar / Maddi Ozkaynak''
     (lift2 safe_div (col df ''Duran Varliklar'')
        (lift2 s_sub (col df ''Toplam Ozkaynaklar'')
           (col df ''Maddi Olmayan Duran Varliklar'')))) (\<lambda>df.
   bindE (assign df ''Duran Varliklar / Aktif ''
     (lift2 safe_div (lift1 (s_scale 100) (col df ''Duran Varliklar'')) (Inr total_assets))) (\<lambda>df.
   bindE (assign df ''Donen Varliklar / Aktif (%)''
     (lift2 safe_div (lift1 (s_scale 100) (col df ''Donen Varliklar'')) (Inr total_assets))) (\<lambda>df.
   bindE (assign df ''Kisa Vade Borc / Aktif''
     (lift2 safe_div (col df ''Kisa Vadeli Yukumlulukler'') (Inr total_assets))) (\<lambda>df.
   bindE (assign df ''Kisa Vade Borc / Donen Varlik''
     (lift2 safe_div (col df ''Kisa Vadeli Yukumlulukler'') (col df ''Donen Varliklar''))) (\<lambda>df.
   bindE (assign df ''Kisa Vade Borc / Ozsermaye''
     (lift2 safe_div (col df ''Kisa Vadeli Yukumlulukler'') (col df ''Toplam Ozkaynaklar''))) (\<lambda>df.
   bindE (assign df ''Kisa Vade Borc / Toplam Borc''
     (lift2 safe_div (col df ''Kisa Vadeli Yukumlulukler'') (Inr total_liab))) (\<lambda>df.
   bindE (assign df ''Net Satislar / Kisa Vade Borc''
     (lift2 safe_div (col df ''Satis Gelirleri'') (col df ''Kisa Vadeli Yukumlulukler''))) (\<lambda>df.
   bindE (assign df ''Esas Faaliyet Kari / Kisa Vadeli Borc''
     (lift2 safe_div (col df ''Net Faaliyet Kar/Zarari'')
        (col df ''Kisa Vadeli Yukumlulukler''))) (\<lambda>df.
   bindE (assign df ''Aktif Karlilik (%)''
     (lift2 safe_div (lift1 (s_scale 100) (col df ''Donem Net Kar/Zarari''))
        (Inr total_assets))) (\<lambda>df.
   bindE (assign df ''ROCE Orani''
     (lift2 safe_div (lift1 (s_scale 100) (col df ''FAALIYET KARI (ZARARI)''))
        (Inr total_assets))) (\<lambda>df.
   bindE (assign df ''Finansman Gider / Net Satis''
     (lift2 safe_div (col df ''Finansman Giderleri'') (col df ''Satis Gelirleri''))) (\<lambda>df.
   bindE (lift2 safe_div
        (lift2 s_sub (col df ''Donen Varliklar'') (col df ''Kisa Vadeli Yukumlulukler''))
        (Inr total_assets)) (\<lambda>X1.
   bindE (lift2 safe_div
        (lift2 s_add (col df ''Gecmis Yillar Kar/Zararlari'') (col df ''Donem Net Kar/Zarari''))
        (Inr total_assets)) (\<lambda>X2.
   bindE (lift2 safe_div (col df ''SURDURULEN FAALIYETLER VERGI ONCESI KARI (ZARARI)'')
        (Inr total_assets)) (\<lambda>X3.
   bindE (lift2 safe_div (col df ''Toplam Ozkaynaklar'') (Inr total_liab)) (\<lambda>X4.
   bindE (lift2 safe_div (col df ''Satis Gelirleri'') (Inr total_assets)) (\<lambda>X5.
   bindE (assign df ''Altman Z-Skoru''
     (Inr (s_add (s_add (s_add (s_add (s_scale 1.2 X1) (s_scale 1.4 X2)) (s_scale 3.3 X3))
              (s_scale 0.6 X4)) X5))) (\<lambda>df.
   bindE (lift2 safe_div (col df ''Donem Net Kar/Zarari'') (Inr total_assets)) (\<lambda>Z1.
   bindE (lift2 safe_div (Inr total_liab) (Inr total_assets)) (\<lambda>Z2.
   bindE (lift2 safe_div (col df ''Donen Varliklar'') (col df ''Kisa Vadeli Yukumlulukler'')) (\<lambda>Z3.
   bindE (assign df ''Zmijewski Skoru''
     (Inr (s_sub (s_add (s_rsub (- 4.3) (s_scale 4.5 Z1)) (s_scale 5.7 Z2))
              (s_scale 0.004 Z3)))) (\<lambda>df.
   bindE (lift2 safe_div
        (lift2 safe_div (col df ''Nakit ve Nakit Benzerleri'')
           (col df ''Kisa Vadeli Yukumlulukler''))
        (Inr total_liab)) (\<lambda>L6.
   bindE (lift2 safe_div (Inr total_liab) (Inr total_assets)) (\<lambda>L7.
   bindE (assign df ''L Model Skoru''
     (Inr (s_sub (s_add (s_add (s_sub (s_sub (s_add (s_scale (- 0.113) X1) (s_scale 0.238 X2))
              (s_scale 0.052 X3)) (s_scale 0.051 X4)) (s_scale 0.011 X5))
              (s_scale 0.729 L6)) (s_scale 0.639 L7)))) (\<lambda>df.
   Inr df))))))))))))))))))))))))))))))))))))))))))))"

text \<open>
  The 21 raw columns that \<open>compute_ratios\<close> reads, in the order in which it first reads
  them; \<open>present\<close> tells whether a frame has a column, \<open>raw\<close> is the column when it has.
\<close>

definition RAW_FIELDS :: "string list" where
  "RAW_FIELDS = [''Donen Varliklar'', ''Duran Varliklar'', ''Kisa Vadeli Yukumlulukler'',
     ''Uzun Vadeli Yukumlulukler'', ''Stoklar'', ''Diger Donen Varliklar'',
     ''Nakit ve Nakit Benzerleri'', ''FAALIYET KARI (ZARARI)'', ''Satis Gelirleri'',
     ''Net Faaliyet Kar/Zarari'', ''Ticari Faaliyetlerden Brut Kar (Zarar)'',
     ''Donem Net Kar/Zarari'', ''Ticari Alacaklar'', ''Satislarin Maliyeti (-)'',
     ''Ticari Borclar'', ''Toplam Ozkaynaklar'', ''Maddi Duran Varliklar'',
     ''Maddi Olmayan Duran Varliklar'', ''Finansman Giderleri'',
     ''Gecmis Yillar Kar/Zararlari'', ''SURDURULEN FAALIYETLER VERGI ONCESI KARI (ZARARI)'']"

definition present :: "dataframe \<Rightarrow> string \<Rightarrow> bool" where
  "present df k = (map_of (columns df) k \<noteq> None)"

definition raw :: "dataframe \<Rightarrow> string \<Rightarrow> series" where
  "raw df k = (case map_of (columns df) k of None \<Rightarrow> [] | Some s \<Rightarrow> s)"

text \<open>
  The 32 assignments of \<open>compute_ratios\<close> as one list, in the order of assignment, over a
  lookup \<open>c\<close> of the raw columns; \<open>enrich\<close> performs them on a frame. That the
  statement-by-statement model above computes exactly this, or raises at the first raw
  column that is absent, is lemma \<open>compute_ratios_run\<close> below.
\<close>

definition ratio_columns :: "(string \<Rightarrow> series) \<Rightarrow> (string \<times> series) list" where
  "ratio_columns c =
    (let total_assets = s_add (c ''Donen Varliklar'') (c ''Duran Varliklar'');
         total_liab = s_add (c ''Kisa Vadeli Yukumlulukler'') (c ''Uzun Vadeli Yukumlulukler'');
         X1 = safe_div (s_sub (c ''Donen Varliklar'') (c ''Kisa Vadeli Yukumlulukler'')) total_assets;
         X2 = safe_div (s_add (c ''Gecmis Yillar Kar/Zararlari'') (c ''Donem Net Kar/Zarari''))
                total_assets;
         X3 = safe_div (c ''SURDURULEN FAALIYETLER VERGI ONCESI KARI (ZARARI)'') total_assets;
         X4 = safe_div (c ''Toplam Ozkaynaklar'') total_liab;
         X5 = safe_div (c ''Satis Gelirleri'') total_assets;
         Z1 = safe_div (c ''Donem Net Kar/Zarari'') total_assets;
         Z2 = safe_div total_liab total_assets;
         Z3 = safe_div (c ''Donen Varliklar'') (c ''Kisa Vadeli Yukumlulukler'');
         L6 = safe_div (safe_div (c ''Nakit ve Nakit Benzerleri'') (c ''Kisa Vadeli Yukumlulukler''))
                total_liab;
         L7 = safe_div total_liab total_assets
     in
     [(''Cari Oran'', safe_div (c ''Donen Varliklar'') (c ''Kisa Vadeli Yukumlulukler'')),
      (''Asit Test Orani'',
         safe_div (s_sub (s_sub (c ''Donen Varliklar'') (c ''Stoklar'')) (c ''Diger Donen Varliklar''))
           (c ''Kisa Vadeli Yukumlulukler'')),
      (''Nakit Orani'', safe_div (c ''Nakit ve Nakit Benzerleri'') (c ''Kisa Vadeli Yukumlulukler'')),
      (''Faaliyet Kar Marji'',
         safe_div (s_scale 100 (c ''FAALIYET KARI (ZARARI)'')) (c ''Satis Gelirleri'')),
      (''Esas Faaliyet Kar Marji'',
         safe_div (s_scale 100 (c ''Net Faaliyet Kar/Zarari'')) (c ''Satis Gelirleri'')),
      (''Brut Kar Marji (%)'',
         safe_div (s_scale 100 (c ''Ticari Faaliyetlerden Brut Kar (Zarar)'')) (c ''Satis Gelirleri'')),
      (''Net Kar Marji'', safe_div (s_scale 100 (c ''Donem Net Kar/Zarari'')) (c ''Satis Gelirleri'')),
      (''FAVOK / Kisa Vade Borc'',
         safe_div (c ''FAALIYET KARI (ZARARI)'') (c ''Kisa Vadeli Yukumlulukler'')),
      (''Aktif Devir Hizi'', safe_div (c ''Satis Gelirleri'') total_assets),
      (''Alacak Devir Hizi'', safe_div (c ''Satis Gelirleri'') (c ''Ticari Alacaklar'')),
      (''Donen Varliklar Devir Hizi'', safe_div (c ''Donen Varliklar'') (c ''Satis Gelirleri'')),
      (''Ticari Borclar Devir Hizi'',
         s_neg (safe_div (c ''Satislarin Maliyeti (-)'') (c ''Ticari Borclar''))),
      (''Stok Devir Hizi'', s_neg (safe_div (c ''Satislarin Maliyeti (-)'') (c ''Stoklar''))),
      (''Borc Kaynak Orani'', s_scale 100 (safe_div total_liab (c ''Toplam Ozkaynaklar''))),
      (''Finansal Kaldirac'', s_scale 100 (safe_div total_liab total_assets)),
      (''Ozsermaye / Aktif'', safe_div (c ''Toplam Ozkaynaklar'') total_assets),
      (''Ozsermaye / Maddi Duran Varliklar'',
         safe_div (c ''Toplam Ozkaynaklar'') (c ''Maddi Duran Varliklar'')),
      (''Duran Varliklar / Maddi Ozkaynak'',
         safe_div (c ''Duran Varliklar'')
           (s_sub (c ''Toplam Ozkaynaklar'') (c ''Maddi Olmayan Duran Varliklar''))),
      (''Duran Varliklar / Aktif '', safe_div (s_scale 100 (c ''Duran Varliklar'')) total_assets),
      (''Donen Varliklar / Aktif (%)'', safe_div (s_scale 100 (c ''Donen Varliklar'')) total_assets),
      (''Kisa Vade Borc / Aktif'', safe_div (c ''Kisa Vadeli Yukumlulukler'') total_assets),
      (''Kisa Vade Borc / Donen Varlik'',
         safe_div (c ''Kisa Vadeli Yukumlulukler'') (c ''Donen Varliklar'')),
      (''Kisa Vade Borc / Ozsermaye'',
         safe_div (c ''Kisa Vadeli Yukumlulukler'') (c ''Toplam Ozkaynaklar'')),
      (''Kisa Vade Borc / Toplam Borc'', safe_div (c ''Kisa Vadeli Yukumlulukler'') total_liab),
      (''Net Satislar / Kisa Vade Borc'',
         safe_div (c ''Satis Gelirleri'') (c ''Kisa Vadeli Yukumlulukler'')),
      (''Esas Faaliyet Kari / Kisa Vadeli Borc'',
         safe_div (c ''Net Faaliyet Kar/Zarari'') (c ''Kisa Vadeli Yukumlulukler'')),
      (''Aktif Karlilik (%)'', safe_div (s_scale 100 (c ''Donem Net Kar/Zarari'')) total_assets),
      (''ROCE Orani'', safe_div (s_scale 100 (c ''FAALIYET KARI (ZARARI)'')) total_assets),
      (''Finansman Gider / Net Satis'',
         safe_div (c ''Finansman Giderleri'') (c ''Satis Gelirleri'')),
      (''Altman Z-Skoru'',
         s_add (s_add (s_add (s_add (s_scale 1.2 X1) (s_scale 1.4 X2)) (s_scale 3.3 X3))
           (s_scale 0.6 X4)) X5),
      (''Zmijewski Skoru'',
         s_sub (s_add (s_rsub (- 4.3) (s_scale 4.5 Z1)) (s_scale 5.7 Z2)) (s_scale 0.004 Z3)),
      (''L Model Skoru'',
         s_sub (s_add (s_add (s_sub (s_sub (s_add (s_scale (- 0.113) X1) (s_scale 0.238 X2))
           (s_scale 0.052 X3)) (s_scale 0.051 X4)) (s_scale 0.011 X5))
           (s_scale 0.729 L6)) (s_scale 0.639 L7))])"

definition enrich :: "dataframe \<Rightarrow> dataframe" where
  "enrich df = foldl (\<lambda>d (k, s). setcol d k s) df (ratio_columns (raw df))"

section \<open>Feature selection and row filtering\<close>

definition SELECTED_FEATS :: "string list" where
  "SELECTED_FEATS = [''Altman Z-Skoru'', ''Finansal Kaldirac'', ''Nakit Orani'', ''Aktif Devir Hizi'',
     ''L Model Skoru'', ''Zmijewski Skoru'', ''Asit Test Orani'',
     ''Ozsermaye / Maddi Duran Varliklar'', ''Faaliyet Kar Marji'',
     ''Duran Varliklar / Maddi Ozkaynak'', ''Ticari Borclar Devir Hizi'',
     ''Stok Devir Hizi'', ''Brut Kar Marji (%)'', ''Cari Oran'',
     ''Esas Faaliyet Kari / Kisa Vadeli Borc'', ''Esas Faaliyet Kar Marji'',
     ''Ozsermaye / Aktif'', ''Alacak Devir Hizi'', ''Borc Kaynak Orani'',
     ''Net Kar Marji'', ''Net Satislar / Kisa Vade Borc'',
     ''Kisa Vade Borc / Ozsermaye'', ''Kisa Vade Borc / Toplam Borc'',
     ''Kisa Vade Borc / Aktif'', ''Kisa Vade Borc / Donen Varlik'',
     ''FAVOK / Kisa Vade Borc'', ''Duran Varliklar / Aktif '',
     ''Donen Varliklar / Aktif (%)'', ''Donen Varliklar Devir Hizi'',
     ''Aktif Karlilik (%)'', ''ROCE Orani'', ''Finansman Gider / Net Satis'']"

text \<open>
  \<open>df[names]\<close>: the named columns in the order asked, on the same index; pandas raises a
  \<open>KeyError\<close> that lists the names the frame lacks.
\<close>

definition select :: "dataframe \<Rightarrow> string list \<Rightarrow> error + dataframe" where
  "select df names =
     (let missing = filter (\<lambda>k. \<not> present df k) names
      in if missing \<noteq> [] then Inl (KeyErrorList missing)
         else Inr \<lparr>index = index df, columns = map (\<lambda>k. (k, raw df k)) names\<rparr>)"

text \<open>The rows at the given positions, in the given order.\<close>

definition rows_at :: "dataframe \<Rightarrow> nat list \<Rightarrow> dataframe" where
  "rows_at df ps =
     \<lparr>index = map (\<lambda>p. index df ! p) ps,
      columns = map (\<lambda>(k, s). (k, map (\<lambda>p. s ! p) ps)) (columns df)\<rparr>"

text \<open>\<open>df.isna().any().any()\<close>, a null in the row at position \<open>p\<close>, and \<open>df.dropna()\<close>.\<close>

definition isna_any :: "dataframe \<Rightarrow> bool" where
  "isna_any df = list_ex (\<lambda>(k, s). list_ex isna s) (columns df)"

definition row_has_na :: "dataframe \<Rightarrow> nat \<Rightarrow> bool" where
  "row_has_na df p = list_ex (\<lambda>(k, s). isna (s ! p)) (columns df)"

definition dropna :: "dataframe \<Rightarrow> dataframe" where
  "dropna df = rows_at df (filter (\<lambda>p. \<not> row_has_na df p) [0..<length (index df)])"


text \<open>
  \<open>df.loc[labels]\<close> for a frame whose row labels are unique (the raw frame's are, after
  \<open>reset_index\<close>): the row of each label, in the order of the labels; \<open>KeyError\<close> on
  labels the index lacks.
\<close>

fun position_of :: "nat list \<Rightarrow> nat \<Rightarrow> nat" where
  "position_of [] l = 0"
| "position_of (x # xs) l = (if x = l then 0 else Suc (position_of xs l))"

definition loc_rows :: "dataframe \<Rightarrow> nat list \<Rightarrow> error + dataframe" where
  "loc_rows df labels =
     (let missing = filter (\<lambda>l. l \<notin> set (index df)) labels
      in if missing \<noteq> [] then Inl (KeyErrorLabels missing)
         else Inr (rows_at df (map (position_of (index df)) labels)))"

text \<open>
  The messages of \<open>st.warning\<close> and \<open>st.error\<close> (the arrow of the first written
  \<open>->\<close>).
\<close>

definition MSG_SKIPPED :: string where
  "MSG_SKIPPED = ''Bazi oranlar eksik -> ilgili satirlar atlandi.''"



text \<open>The null check with its warning and \<open>dropna\<close>.\<close>

definition filter_rows :: "dataframe \<Rightarrow> string list \<times> dataframe" where
  "filter_rows model_input =
     (if isna_any model_input then ([MSG_SKIPPED], dropna model_input)
      else ([], model_input))"


text \<open>\<open>out_df = raw_df.loc[model_input.index]\<close>, before the prediction column is added.\<close>

definition out_df :: "dataframe \<Rightarrow> dataframe \<Rightarrow> error + dataframe" where
  "out_df raw_df model_input = loc_rows raw_df (index model_input)"

section \<open>The scoring formulas as the specification words them\<close>

text \<open>
  The two aggregates and the intermediate ratios of the Altman and Zmijewski scores, over
  a lookup \<open>c\<close> of the raw columns, each quotient a null-safe division.
\<close>

definition spec_total_assets :: "(string \<Rightarrow> series) \<Rightarrow> series" where
  "spec_total_assets c = s_add (c ''Donen Varliklar'') (c ''Duran Varliklar'')"

definition spec_total_liab :: "(string \<Rightarrow> series) \<Rightarrow> series" where
  "spec_total_liab c = s_add (c ''Kisa Vadeli Yukumlulukler'') (c ''Uzun Vadeli Yukumlulukler'')"

definition spec_X1 :: "(string \<Rightarrow> series) \<Rightarrow> series" where
  "spec_X1 c = safe_div (s_sub (c ''Donen Varliklar'') (c ''Kisa Vadeli Yukumlulukler''))
     (spec_total_assets c)"

definition spec_X2 :: "(string \<Rightarrow> series) \<Rightarrow> series" where
  "spec_X2 c = safe_div (s_add (c ''Gecmis Yillar Kar/Zararlari'') (c ''Donem Net Kar/Zarari''))
     (spec_total_assets c)"

definition spec_X3 :: "(string \<Rightarrow> series) \<Rightarrow> series" where
  "spec_X3 c = safe_div (c ''SURDURULEN FAALIYETLER VERGI ONCESI KARI (ZARARI)'')
     (spec_total_assets c)"

definition spec_X4 :: "(string \<Rightarrow> series) \<Rightarrow> series" where
  "spec_X4 c = safe_div (c ''Toplam Ozkaynaklar'') (spec_total_liab c)"

definition spec_X5 :: "(string \<Rightarrow> series) \<Rightarrow> series" where
  "spec_X5 c = safe_div (c ''Satis Gelirleri'') (spec_total_assets c)"

definition spec_altman_z :: "(string \<Rightarrow> series) \<Rightarrow> series" where
  "spec_altman_z c =
     s_add (s_add (s_add (s_add (s_scale 1.2 (spec_X1 c)) (s_scale 1.4 (spec_X2 c)))
       (s_scale 3.3 (spec_X3 c))) (s_scale 0.6 (spec_X4 c))) (spec_X5 c)"





section \<open>Cells that are numbers\<close>



section \<open>Example frames\<close>

text \<open>
  A frame of two firms with every raw column: the first with total assets 100, total
  liabilities 60 and cost of sales -100, the second with zero in every field.
\<close>

definition ex_df :: dataframe where
  "ex_df = \<lparr>index = [0, 1], columns =
     [(''Donen Varliklar'', [Num 40, Num 0]),
      (''Duran Varliklar'', [Num 60, Num 0]),
      (''Kisa Vadeli Yukumlulukler'', [Num 20, Num 0]),
      (''Uzun Vadeli Yukumlulukler'', [Num 40, Num 0]),
      (''Stoklar'', [Num 10, Num 0]),
      (''Diger Donen Varliklar'', [Num 5, Num 0]),
      (''Nakit ve Nakit Benzerleri'', [Num 8, Num 0]),
      (''FAALIYET KARI (ZARARI)'', [Num 12, Num 0]),
      (''Satis Gelirleri'', [Num 200, Num 0]),
      (''Net Faaliyet Kar/Zarari'', [Num 10, Num 0]),
      (''Ticari Faaliyetlerden Brut Kar (Zarar)'', [Num 50, Num 0]),
      (''Donem Net Kar/Zarari'', [Num 5, Num 0]),
      (''Ticari Alacaklar'', [Num 25, Num 0]),
      (''Satislarin Maliyeti (-)'', [Num (- 100), Num 0]),
      (''Ticari Borclar'', [Num 50, Num 0]),
      (''Toplam Ozkaynaklar'', [Num 40, Num 0]),
      (''Maddi Duran Varliklar'', [Num 30, Num 0]),
      (''Maddi Olmayan Duran Varliklar'', [Num 10, Num 0]),
      (''Finansman Giderleri'', [Num 4, Num 0]),
      (''Gecmis Yillar Kar/Zararlari'', [Num 15, Num 0]),
      (''SURDURULEN FAALIYETLER VERGI ONCESI KARI (ZARARI)'', [Num 7, Num 0])]\<rparr>"

text \<open>
  One firm whose cash, inventories and trade payables cells are empty, with short-term
  liabilities 20.
\<close>

definition ex_null_df :: dataframe where
  "ex_null_df = \<lparr>index = [0], columns =
     [(''Donen Varliklar'', [Num 40]),
      (''Duran Varliklar'', [Num 60]),
      (''Kisa Vadeli Yukumlulukler'', [Num 20]),
      (''Uzun Vadeli Yukumlulukler'', [Num 40]),
      (''Stoklar'', [Null]),
      (''Diger Donen Varliklar'', [Num 5]),
      (''Nakit ve Nakit Benzerleri'', [Null]),
      (''FAALIYET KARI (ZARARI)'', [Num 12]),
      (''Satis Gelirleri'', [Num 200]),
      (''Net Faaliyet Kar/Zarari'', [Num 10]),
      (''Ticari Faaliyetlerden Brut Kar (Zarar)'', [Num 50]),
      (''Donem Net Kar/Zarari'', [Num 5]),
      (''Ticari Alacaklar'', [Num 25]),
      (''Satislarin Maliyeti (-)'', [Num (- 100)]),
      (''Ticari Borclar'', [Null]),
      (''Toplam Ozkaynaklar'', [Num 40]),
      (''Maddi Duran Varliklar'', [Num 30]),
      (''Maddi Olmayan Duran Varliklar'', [Num 10]),
      (''Finansman Giderleri'', [Num 4]),
      (''Gecmis Yillar Kar/Zararlari'', [Num 15]),
      (''SURDURULEN FAALIYETLER VERGI ONCESI KARI (ZARARI)'', [Num 7])]\<rparr>"


text \<open>
  A frame of three rows that holds the 32 feature columns, with a null in the second row
  of the current ratio.
\<close>

definition ex_enriched :: dataframe where
  "ex_enriched = \<lparr>index = [0, 1, 2], columns =
     map (\<lambda>f. (f, if f = ''Cari Oran'' then [Num 1, Null, Num 3] else [Num 1, Num 2, Num 3]))
       SELECTED_FEATS\<rparr>"

section \<open>Running the ratio engine\<close>

lemma bindE_simps: "bindE (Inr x) f = f x" "bindE (Inl e) f = Inl e"
  by (simp_all add: bindE_def)

lemma lift_simps:
  "lift1 g (Inr x) = Inr (g x)" "lift1 g (Inl e) = Inl e"
  "lift2 h (Inr x) (Inr y) = Inr (h x y)" "lift2 h (Inl e) b = Inl e"
  "lift2 h (Inr x) (Inl e) = Inl e"
  by (simp_all add: lift1_def lift2_def bindE_def)

lemma assign_simps: "assign df k (Inr s) = Inr (setcol df k s)" "assign df k (Inl e) = Inl e"
  by (simp_all add: assign_def bindE_def)

lemma col_setcol: "col (setcol df k s) k' = (if k' = k then Inr s else col df k')"
  by (simp add: col_def setcol_def update_conv')

lemma col_base: "col df k = (if present df k then Inr (raw df k) else Inl (KeyError k))"
  by (auto simp: col_def present_def raw_def split: option.splits)

text \<open>
  Congruence rules that keep the simplifier out of the frames already built and out of
  the statements not yet reached.
\<close>

lemma bindE_weak_cong: "m = m' \<Longrightarrow> bindE m f = bindE m' f"
  by simp

lemma col_weak_cong: "k = k' \<Longrightarrow> col df k = col df k'"
  by simp

lemma assign_weak_cong: "e = e' \<Longrightarrow> assign df k e = assign df k e'"
  by simp

lemma setcol_no_cong: "setcol df k s = setcol df k s"
  by simp

text \<open>
  A run of \<open>compute_ratios\<close> raises \<open>KeyError\<close> for the first raw column, in reading
  order, that the frame lacks, and otherwise returns the frame with the 32 assignments
  performed.
\<close>

lemma compute_ratios_run:
  "compute_ratios df =
     (case find (\<lambda>k. \<not> present df k) RAW_FIELDS of
        Some k \<Rightarrow> Inl (KeyError k)
      | None \<Rightarrow> Inr (enrich df))"
proof -
  have base: "\<And>k. col df k = (if present df k then Inr (raw df k) else Inl (KeyError k))"
    by (rule col_base)
  show ?thesis
    unfolding compute_ratios_def RAW_FIELDS_def enrich_def ratio_columns_def Let_def
    by (simp add: bindE_simps lift_simps assign_simps col_setcol base
        cong: bindE_weak_cong col_weak_cong assign_weak_cong setcol_no_cong)
qed

section \<open>Properties of the division primitive\<close>

lemma length_safe_div: "length (safe_div num denom) = min (length num) (length denom)"
  by (simp add: safe_div_def s_fillna_def s_div_def s_replace_def)

lemma safe_div_nth:
  assumes "i < length num" "i < length denom"
  shows "safe_div num denom ! i =
    (if denom ! i = Num 0 \<or> cell_div (num ! i) (denom ! i) = Null then Num 0
     else cell_div (num ! i) (denom ! i))"
  using assms
  by (cases "num ! i") (simp_all add: safe_div_def s_fillna_def s_div_def s_replace_def)



section \<open>The frame that a run returns\<close>


lemma columns_setcol: "map_of (columns (setcol df k s)) = (map_of (columns df))(k \<mapsto> s)"
  by (simp add: setcol_def update_conv')

lemma foldl_setcol_map_of:
  "map_of (columns (foldl (\<lambda>d (k, s). setcol d k s) df kvs)) = map_of (columns df) ++ map_of (rev kvs)"
proof (induction kvs arbitrary: df)
  case Nil
  then show ?case by simp
next
  case (Cons kv kvs)
  obtain k s where kv: "kv = (k, s)" by (cases kv)
  have "map_of (columns (foldl (\<lambda>d (k, s). setcol d k s) df (kv # kvs)))
      = map_of (columns (setcol df k s)) ++ map_of (rev kvs)"
    using Cons.IH [of "setcol df k s"] by (simp add: kv)
  also have "\<dots> = map_of (columns df) ++ map_of (rev (kv # kvs))"
    by (auto simp: kv columns_setcol fun_eq_iff map_add_def split: option.splits)
  finally show ?case .
qed

lemma distinct_keys: "distinct (map fst (ratio_columns c))"
  by (simp add: ratio_columns_def Let_def)

lemma set_keys: "set (map fst (ratio_columns c)) = set SELECTED_FEATS"
  by (simp add: ratio_columns_def Let_def SELECTED_FEATS_def insert_commute)

lemma map_of_rev_distinct: "distinct (map fst xs) \<Longrightarrow> map_of (rev xs) = map_of xs"
  by (subst map_of_inject_set) (simp_all add: rev_map [symmetric])

lemma map_of_columns_enrich:
  "map_of (columns (enrich df)) = map_of (columns df) ++ map_of (ratio_columns (raw df))"
  by (simp add: enrich_def foldl_setcol_map_of map_of_rev_distinct distinct_keys)


lemma col_enrich:
  "col (enrich df) k =
     (case map_of (ratio_columns (raw df)) k of Some s \<Rightarrow> Inr s | None \<Rightarrow> col df k)"
  by (simp add: col_def map_of_columns_enrich map_add_def split: option.splits)

lemma map_of_ratio_None: "(map_of (ratio_columns c) k = None) = (k \<notin> set SELECTED_FEATS)"
  using set_keys [of c] by (simp add: map_of_eq_None_iff)

lemma raw_not_feat_all: "list_all (\<lambda>k. k \<notin> set SELECTED_FEATS) RAW_FIELDS"
  unfolding RAW_FIELDS_def SELECTED_FEATS_def by simp

lemma raw_not_feat: "k \<in> set RAW_FIELDS \<Longrightarrow> k \<notin> set SELECTED_FEATS"
  using raw_not_feat_all by (simp add: list_all_iff)

lemma col_enrich_other: "k \<notin> set SELECTED_FEATS \<Longrightarrow> col (enrich df) k = col df k"
  using map_of_ratio_None [of "raw df" k] by (simp add: col_enrich)

lemma present_enrich: "present (enrich df) k = (k \<in> set SELECTED_FEATS \<or> present df k)"
  using map_of_ratio_None [of "raw df" k]
  by (auto simp: present_def map_of_columns_enrich map_add_def split: option.splits)

lemma raw_enrich_other: "k \<notin> set SELECTED_FEATS \<Longrightarrow> raw (enrich df) k = raw df k"
  using map_of_ratio_None [of "raw df" k]
  by (simp add: raw_def map_of_columns_enrich map_add_def split: option.splits)

lemma ratio_columns_cong:
  assumes "\<And>k. k \<in> set RAW_FIELDS \<Longrightarrow> c k = c' k"
  shows "ratio_columns c = ratio_columns c'"
proof -
  have "list_all (\<lambda>k. c k = c' k) RAW_FIELDS"
    using assms by (simp add: list_all_iff)
  then show ?thesis
    unfolding RAW_FIELDS_def ratio_columns_def Let_def by simp
qed

lemma compute_ratios_Inr:
  "(compute_ratios df = Inr df') = (list_all (present df) RAW_FIELDS \<and> df' = enrich df)"
proof (cases "find (\<lambda>k. \<not> present df k) RAW_FIELDS")
  case None
  have run: "compute_ratios df = Inr (enrich df)"
    by (simp add: compute_ratios_run None)
  have "list_all (present df) RAW_FIELDS"
    using None by (simp add: find_None_iff list_all_iff)
  then show ?thesis
    using run by auto
next
  case (Some k)
  have run: "compute_ratios df = Inl (KeyError k)"
    by (simp add: compute_ratios_run Some)
  have "\<not> list_all (present df) RAW_FIELDS"
    using Some by (auto simp: find_Some_iff list_all_iff dest: nth_mem)
  then show ?thesis
    using run by simp
qed

lemma compute_ratios_Inl:
  "(compute_ratios df = Inl e) =
     (\<exists>k. find (\<lambda>k. \<not> present df k) RAW_FIELDS = Some k \<and> e = KeyError k)"
  by (cases "find (\<lambda>k. \<not> present df k) RAW_FIELDS") (auto simp: compute_ratios_run)



lemma length_series [simp]:
  "length (s_add xs ys) = min (length xs) (length ys)"
  "length (s_sub xs ys) = min (length xs) (length ys)"
  "length (s_neg xs) = length xs"
  "length (s_scale k xs) = length xs"
  "length (s_rsub k xs) = length xs"
  by (simp_all add: s_add_def s_sub_def s_neg_def s_scale_def s_rsub_def)











lemma raw_ex_df:
  "list_all (present ex_df) RAW_FIELDS"
  "map (raw ex_df) RAW_FIELDS =
     [[Num 40, Num 0], [Num 60, Num 0], [Num 20, Num 0], [Num 40, Num 0], [Num 10, Num 0],
      [Num 5, Num 0], [Num 8, Num 0], [Num 12, Num 0], [Num 200, Num 0], [Num 10, Num 0],
      [Num 50, Num 0], [Num 5, Num 0], [Num 25, Num 0], [Num (- 100), Num 0], [Num 50, Num 0],
      [Num 40, Num 0], [Num 30, Num 0], [Num 10, Num 0], [Num 4, Num 0], [Num 15, Num 0],
      [Num 7, Num 0]]"
  by (simp_all add: RAW_FIELDS_def present_def raw_def ex_df_def)

lemma lookup_altman: "map_of (ratio_columns c) ''Altman Z-Skoru'' = Some (spec_altman_z c)"
  by (simp add: ratio_columns_def Let_def spec_altman_z_def spec_X1_def spec_X2_def spec_X3_def
      spec_X4_def spec_X5_def spec_total_assets_def spec_total_liab_def)


lemma lookup_turnover:
  "map_of (ratio_columns c) ''Ticari Borclar Devir Hizi'' =
     Some (s_neg (safe_div (c ''Satislarin Maliyeti (-)'') (c ''Ticari Borclar'')))"
  "map_of (ratio_columns c) ''Stok Devir Hizi'' =
     Some (s_neg (safe_div (c ''Satislarin Maliyeti (-)'') (c ''Stoklar'')))"
  by (simp_all add: ratio_columns_def Let_def)

section \<open>Rows of series expressions\<close>

lemma nth_series:
  "i < length xs \<Longrightarrow> i < length ys \<Longrightarrow> s_add xs ys ! i = cell_add (xs ! i) (ys ! i)"
  "i < length xs \<Longrightarrow> i < length ys \<Longrightarrow> s_sub xs ys ! i = cell_sub (xs ! i) (ys ! i)"
  "i < length xs \<Longrightarrow> s_neg xs ! i = cell_neg (xs ! i)"
  "i < length xs \<Longrightarrow> s_scale k xs ! i = cell_scale k (xs ! i)"
  "i < length xs \<Longrightarrow> s_rsub k xs ! i = cell_sub (Num k) (xs ! i)"
  by (simp_all add: s_add_def s_sub_def s_neg_def s_scale_def s_rsub_def)

lemmas series_eval = s_add_def s_sub_def s_neg_def s_scale_def s_rsub_def safe_div_def
  s_div_def s_replace_def s_fillna_def cell_sub_def Let_def

lemmas raw_ex_df_values = raw_ex_df(2) [unfolded RAW_FIELDS_def, simplified]

lemma run_ex_df: "compute_ratios ex_df = Inr (enrich ex_df)"
  by (simp add: compute_ratios_Inr raw_ex_df(1))

lemma cols_present:
  assumes "list_all (present df) RAW_FIELDS"
  shows "list_all (\<lambda>k. col df k = Inr (raw df k)) RAW_FIELDS"
  using assms by (simp add: list_all_iff col_base)

section \<open>The scoring models and the turnover ratios\<close>

text \<open>
  C4. When \<open>compute_ratios\<close> returns, every raw column it reads was there, and the column
  \<open>Altman Z-Skoru\<close> of the result is 1.2 X1 + 1.4 X2 + 3.3 X3 + 0.6 X4 + X5, with X1 =
  (current assets - short-term liabilities) / total assets, X2 = (retained earnings + net
  income) / total assets, X3 = pre-tax income / total assets, X4 = total equity / total
  liabilities, X5 = net sales / total assets, each a null-safe division, total assets =
  current + fixed assets and total liabilities = short-term + long-term liabilities. Row
  by row, where the five ratios are the numbers x1 .. x5 the score is the number
  1.2 x1 + 1.4 x2 + 3.3 x3 + 0.6 x4 + x5.
\<close>

theorem altman_z_formula:
  assumes "compute_ratios df = Inr df'"
  shows "list_all (\<lambda>k. col df k = Inr (raw df k)) RAW_FIELDS
    \<and> col df' ''Altman Z-Skoru'' = Inr (spec_altman_z (raw df))
    \<and> (\<forall>i x1 x2 x3 x4 x5. i < length (spec_altman_z (raw df))
          \<and> spec_X1 (raw df) ! i = Num x1 \<and> spec_X2 (raw df) ! i = Num x2
          \<and> spec_X3 (raw df) ! i = Num x3 \<and> spec_X4 (raw df) ! i = Num x4
          \<and> spec_X5 (raw df) ! i = Num x5
        \<longrightarrow> spec_altman_z (raw df) ! i
              = Num (1.2 * x1 + 1.4 * x2 + 3.3 * x3 + 0.6 * x4 + x5))"
proof -
  from assms have pres: "list_all (present df) RAW_FIELDS" and df': "df' = enrich df"
    by (simp_all add: compute_ratios_Inr)
  have c: "col df' ''Altman Z-Skoru'' = Inr (spec_altman_z (raw df))"
    by (simp add: df' col_enrich lookup_altman)
  have rows: "spec_altman_z c ! i = Num (1.2 * x1 + 1.4 * x2 + 3.3 * x3 + 0.6 * x4 + x5)"
    if "i < length (spec_altman_z c)" "spec_X1 c ! i = Num x1" "spec_X2 c ! i = Num x2"
      "spec_X3 c ! i = Num x3" "spec_X4 c ! i = Num x4" "spec_X5 c ! i = Num x5"
    for c i x1 x2 x3 x4 x5
    using that by (simp add: spec_altman_z_def nth_series)
  show ?thesis
    using cols_present [OF pres] c rows by blast
qed

theorem altman_z_formula_witness:
  "compute_ratios ex_df = Inr (enrich ex_df)
   \<and> col (enrich ex_df) ''Altman Z-Skoru'' = Inr [Num 3.151, Num 0]
   \<and> spec_X1 (raw ex_df) = [Num 0.2, Num 0] \<and> spec_X4 (raw ex_df) = [Num (2 / 3), Num 0]"
  using altman_z_formula [OF run_ex_df]
  by (simp add: run_ex_df spec_altman_z_def spec_X1_def spec_X2_def spec_X3_def spec_X4_def
      spec_X5_def spec_total_assets_def spec_total_liab_def raw_ex_df_values series_eval)



text \<open>
  C8. When \<open>compute_ratios\<close> returns, payables turnover is the negated null-safe quotient
  of cost of sales by trade payables and inventory turnover the negated null-safe quotient
  of cost of sales by inventories: in a row where cost of sales is the number c and the
  denominator the non-zero number p the value is -c / p, so cost of sales -100 over trade
  payables 50 gives 2.
\<close>

theorem turnover_sign_convention:
  assumes "compute_ratios df = Inr df'"
  shows "col df' ''Ticari Borclar Devir Hizi''
        = Inr (s_neg (safe_div (raw df ''Satislarin Maliyeti (-)'') (raw df ''Ticari Borclar'')))
    \<and> col df' ''Stok Devir Hizi''
        = Inr (s_neg (safe_div (raw df ''Satislarin Maliyeti (-)'') (raw df ''Stoklar'')))
    \<and> (\<forall>cost denom i c p. i < length cost \<and> i < length denom
          \<and> cost ! i = Num c \<and> denom ! i = Num p \<and> p \<noteq> 0
        \<longrightarrow> s_neg (safe_div cost denom) ! i = Num (- c / p))
    \<and> (\<forall>cost denom i. i < length cost \<and> i < length denom
          \<and> cost ! i = Num (- 100) \<and> denom ! i = Num 50
        \<longrightarrow> s_neg (safe_div cost denom) ! i = Num 2)"
proof -
  from assms have df': "df' = enrich df"
    by (simp add: compute_ratios_Inr)
  have rows: "s_neg (safe_div cost denom) ! i = Num (- c / p)"
    if "i < length cost" "i < length denom" "cost ! i = Num c" "denom ! i = Num p" "p \<noteq> 0"
    for cost denom i c p
    using that by (simp add: nth_series length_safe_div safe_div_nth)
  have scenario: "s_neg (safe_div cost denom) ! i = Num 2"
    if "i < length cost" "i < length denom" "cost ! i = Num (- 100)" "denom ! i = Num 50"
    for cost denom i
    using rows [OF that] by simp
  show ?thesis
    using rows scenario by (simp add: df' col_enrich lookup_turnover)
qed

theorem turnover_sign_convention_witness:
  "compute_ratios ex_df = Inr (enrich ex_df)
   \<and> col (enrich ex_df) ''Ticari Borclar Devir Hizi'' = Inr [Num 2, Num 0]
   \<and> col (enrich ex_df) ''Stok Devir Hizi'' = Inr [Num 10, Num 0]"
  using turnover_sign_convention [OF run_ex_df]
  by (simp add: run_ex_df raw_ex_df_values series_eval)

section \<open>Completeness of the derived columns\<close>

lemma wf_raw_length:
  assumes "wf_df df" and "present df k"
  shows "length (raw df k) = length (index df)"
proof -
  from assms(2) obtain s where s: "map_of (columns df) k = Some s"
    by (auto simp: present_def)
  then have "(k, s) \<in> set (columns df)"
    by (rule map_of_SomeD)
  then have "length s = length (index df)"
    using assms(1) by (auto simp: wf_df_def list_all_iff)
  then show ?thesis
    by (simp add: raw_def s)
qed



lemma select_all_present:
  assumes "list_all (present df) names"
  shows "select df names = Inr \<lparr>index = index df, columns = map (\<lambda>k. (k, raw df k)) names\<rparr>"
proof -
  have "filter (\<lambda>k. \<not> present df k) names = []"
    using assms by (simp add: list_all_iff filter_empty_conv)
  then show ?thesis
    by (simp add: select_def)
qed


lemma lookup_liquidity:
  "map_of (ratio_columns c) ''Cari Oran''
     = Some (safe_div (c ''Donen Varliklar'') (c ''Kisa Vadeli Yukumlulukler''))"
  "map_of (ratio_columns c) ''Nakit Orani''
     = Some (safe_div (c ''Nakit ve Nakit Benzerleri'') (c ''Kisa Vadeli Yukumlulukler''))"
  by (simp_all add: ratio_columns_def Let_def)


lemma raw_ex_null_df:
  "list_all (present ex_null_df) RAW_FIELDS"
  "map (raw ex_null_df) RAW_FIELDS =
     [[Num 40], [Num 60], [Num 20], [Num 40], [Null], [Num 5], [Null], [Num 12], [Num 200],
      [Num 10], [Num 50], [Num 5], [Num 25], [Num (- 100)], [Null], [Num 40], [Num 30],
      [Num 10], [Num 4], [Num 15], [Num 7]]"
  by (simp_all add: RAW_FIELDS_def present_def raw_def ex_null_df_def)

lemmas raw_ex_null_df_values = raw_ex_null_df(2) [unfolded RAW_FIELDS_def, simplified]





section \<open>Missing fields, a second run, and null numerators\<close>




lemma foldl_setcol_same:
  assumes "\<And>k s. (k, s) \<in> set kvs \<Longrightarrow> map_of (columns d) k = Some s"
  shows "foldl (\<lambda>d (k, s). setcol d k s) d kvs = d"
  using assms
proof (induction kvs)
  case Nil
  then show ?case by simp
next
  case (Cons kv kvs)
  obtain k s where kv: "kv = (k, s)" by (cases kv)
  have "map_of (columns d) k = Some s"
    using Cons.prems [of k s] by (simp add: kv)
  then have "setcol d k s = d"
    by (simp add: setcol_def update_triv)
  then show ?case
    using Cons by (simp add: kv)
qed

lemma enrich_enrich: "enrich (enrich df) = enrich df"
proof -
  have same: "ratio_columns (raw (enrich df)) = ratio_columns (raw df)"
    by (rule ratio_columns_cong) (simp add: raw_enrich_other raw_not_feat)
  have "map_of (columns (enrich df)) k = Some s" if "(k, s) \<in> set (ratio_columns (raw df))" for k s
    using that by (simp add: map_of_columns_enrich map_add_def distinct_keys)
  then have "foldl (\<lambda>d (k, s). setcol d k s) (enrich df) (ratio_columns (raw df)) = enrich df"
    by (rule foldl_setcol_same)
  then show ?thesis
    using same by (simp add: enrich_def [of "enrich df"])
qed

text \<open>
  C9. When \<open>compute_ratios\<close> returns a frame, running it on that frame returns again, and
  each of the 32 feature columns of the second result is there and holds the values it
  held in the first; the raw columns are read as they were, so the whole frame is the same.
\<close>

theorem compute_ratios_idempotent:
  assumes "compute_ratios df = Inr df'"
  shows "\<exists>df''. compute_ratios df' = Inr df''
    \<and> (\<forall>f\<in>set SELECTED_FEATS. col df'' f = col df' f \<and> (\<exists>s. col df' f = Inr s))
    \<and> (\<forall>k\<in>set RAW_FIELDS. col df' k = col df k)
    \<and> df'' = df'"
proof -
  from assms have pres: "list_all (present df) RAW_FIELDS" and df': "df' = enrich df"
    by (simp_all add: compute_ratios_Inr)
  have "list_all (present (enrich df)) RAW_FIELDS"
    using pres by (simp add: list_all_iff present_enrich)
  then have run: "compute_ratios (enrich df) = Inr (enrich df)"
    by (simp add: compute_ratios_Inr enrich_enrich)
  have feats: "\<exists>s. col (enrich df) f = Inr s" if "f \<in> set SELECTED_FEATS" for f
    using that map_of_ratio_None [of "raw df" f] by (auto simp: col_enrich)
  have raws: "col (enrich df) k = col df k" if "k \<in> set RAW_FIELDS" for k
    using that by (simp add: col_enrich_other raw_not_feat)
  show ?thesis
    using run feats raws by (simp add: df')
qed

theorem compute_ratios_idempotent_witness:
  "compute_ratios ex_df = Inr (enrich ex_df)
   \<and> compute_ratios (enrich ex_df) = Inr (enrich ex_df)
   \<and> col (enrich ex_df) ''Cari Oran'' = Inr [Num 2, Num 0]"
proof -
  have c: "col (enrich ex_df) ''Cari Oran'' = Inr [Num 2, Num 0]"
    by (simp add: col_enrich lookup_liquidity raw_ex_df_values series_eval)
  show ?thesis
    using compute_ratios_idempotent [OF run_ex_df] c by (simp add: run_ex_df)
qed

text \<open>
  C2, evaluated. A null numerator over a present, non-zero denominator does not stay
  null: \<open>fillna\<close> turns the null quotient into 0. In the example frame cash is null and
  short-term liabilities are 20; the cash ratio of the result is 0, the row passes the
  null check without a warning and reaches the model.
\<close>

theorem null_numerator_yields_zero:
  "safe_div [Null] [Num 20] = [Num 0]
   \<and> col ex_null_df ''Nakit ve Nakit Benzerleri'' = Inr [Null]
   \<and> col ex_null_df ''Kisa Vadeli Yukumlulukler'' = Inr [Num 20]
   \<and> compute_ratios ex_null_df = Inr (enrich ex_null_df)
   \<and> col (enrich ex_null_df) ''Nakit Orani'' = Inr [Num 0]
   \<and> col (enrich ex_null_df) ''Ticari Borclar Devir Hizi'' = Inr [Num 0]"
proof -
  have run: "compute_ratios ex_null_df = Inr (enrich ex_null_df)"
    by (simp add: compute_ratios_Inr raw_ex_null_df(1))
  have cols: "list_all (\<lambda>k. col ex_null_df k = Inr (raw ex_null_df k)) RAW_FIELDS"
    by (rule cols_present) (rule raw_ex_null_df(1))
  have raws: "col ex_null_df ''Nakit ve Nakit Benzerleri'' = Inr [Null]"
    "col ex_null_df ''Kisa Vadeli Yukumlulukler'' = Inr [Num 20]"
    using cols by (simp_all add: RAW_FIELDS_def raw_ex_null_df_values)
  show ?thesis
    using run raws
    by (simp add: col_enrich lookup_liquidity lookup_turnover raw_ex_null_df_values series_eval)
qed

section \<open>Row filtering\<close>

lemma rows_at_all:
  assumes "wf_df d"
  shows "rows_at d [0..<length (index d)] = d"
proof -
  have "map (\<lambda>p. s ! p) [0..<length (index d)] = s" if "(k, s) \<in> set (columns d)" for k s
  proof -
    have "length s = length (index d)"
      using assms that by (auto simp: wf_df_def list_all_iff)
    then show ?thesis
      using map_nth [of s] by simp
  qed
  then have "map (\<lambda>(k, s). (k, map (\<lambda>p. s ! p) [0..<length (index d)])) (columns d) = columns d"
    by (intro map_idI) auto
  then show ?thesis
    by (simp add: rows_at_def map_nth)
qed

lemma isna_any_rows:
  assumes "wf_df d"
  shows "isna_any d = (\<exists>p<length (index d). row_has_na d p)"
proof -
  have "list_ex isna s = (\<exists>p<length (index d). isna (s ! p))" if "(k, s) \<in> set (columns d)" for k s
  proof -
    have "length s = length (index d)"
      using assms that by (auto simp: wf_df_def list_all_iff)
    then show ?thesis
      unfolding list_ex_iff by (metis in_set_conv_nth)
  qed
  then show ?thesis
    by (fastforce simp: isna_any_def row_has_na_def list_ex_iff)
qed

lemma filter_rows_rows_at:
  assumes "wf_df d"
  shows "snd (filter_rows d) = rows_at d (filter (\<lambda>p. \<not> row_has_na d p) [0..<length (index d)])"
proof (cases "isna_any d")
  case True
  then show ?thesis
    by (simp add: filter_rows_def dropna_def)
next
  case False
  then have "filter (\<lambda>p. \<not> row_has_na d p) [0..<length (index d)] = [0..<length (index d)]"
    by (simp add: isna_any_rows [OF assms])
  then show ?thesis
    using False by (simp add: filter_rows_def rows_at_all [OF assms])
qed

lemma position_of_nth:
  "distinct xs \<Longrightarrow> p < length xs \<Longrightarrow> position_of xs (xs ! p) = p"
proof (induction xs arbitrary: p)
  case Nil
  then show ?case by simp
next
  case (Cons x xs)
  then show ?case
    by (cases p) auto
qed

lemma loc_rows_positions:
  assumes "distinct (index d)" and "\<And>p. p \<in> set ps \<Longrightarrow> p < length (index d)"
  shows "loc_rows d (map (\<lambda>p. index d ! p) ps) = Inr (rows_at d ps)"
proof -
  have "filter (\<lambda>l. l \<notin> set (index d)) (map (\<lambda>p. index d ! p) ps) = []"
    using assms(2) by (auto simp: filter_empty_conv)
  moreover have "map (\<lambda>p. position_of (index d) (index d ! p)) ps = ps"
    by (rule map_idI) (simp add: assms position_of_nth)
  then have "map (position_of (index d)) (map (\<lambda>p. index d ! p) ps) = ps"
    by (simp add: o_def)
  ultimately show ?thesis
    by (simp add: loc_rows_def)
qed

lemma subseq_rows: "subseq (map (\<lambda>p. xs ! p) (filter P [0..<length xs])) xs"
proof -
  have "subseq (map (\<lambda>p. xs ! p) (filter P [0..<length xs])) (map (\<lambda>p. xs ! p) [0..<length xs])"
    by (rule subseq_map) simp
  then show ?thesis
    by (simp add: map_nth)
qed

lemma raw_selected:
  assumes "columns d = map (\<lambda>k. (k, g k)) names" and "f \<in> set names"
  shows "raw d f = g f"
  using assms by (simp add: raw_def map_of_map_restrict)

text \<open>
  C6. For a frame after ratio computation (one cell per row in each column, distinct row
  labels, the 32 feature columns there), the model input after the null check is the
  selection restricted to the rows, in their order, in which none of the 32 features is
  null: no more rows than before, a row gone exactly when one of its 32 values is null,
  the labels a subsequence of the input's, each kept cell the input's cell of that row,
  and the output frame the input's rows at the same positions.
\<close>

theorem row_filter_keeps_complete_rows:
  assumes "wf_df enriched" and "distinct (index enriched)"
    and "list_all (present enriched) SELECTED_FEATS"
  shows "\<exists>mi. select enriched SELECTED_FEATS = Inr mi \<and>
    (let keep = filter (\<lambda>p. \<forall>f\<in>set SELECTED_FEATS. raw enriched f ! p \<noteq> Null)
                  [0..<length (index enriched)];
         out = snd (filter_rows mi)
     in out = rows_at mi keep
      \<and> length (index out) \<le> length (index enriched)
      \<and> subseq (index out) (index enriched)
      \<and> (\<forall>p<length (index enriched).
            (index enriched ! p \<notin> set (index out))
              = (\<exists>f\<in>set SELECTED_FEATS. raw enriched f ! p = Null))
      \<and> (\<forall>q<length (index out). index out ! q = index enriched ! (keep ! q)
            \<and> (\<forall>f\<in>set SELECTED_FEATS. raw out f ! q = raw enriched f ! (keep ! q)))
      \<and> out_df enriched out = Inr (rows_at enriched keep))"
proof -
  let ?n = "length (index enriched)"
  let ?mi = "\<lparr>index = index enriched,
      columns = map (\<lambda>k. (k, raw enriched k)) SELECTED_FEATS\<rparr>"
  let ?keep = "filter (\<lambda>p. \<forall>f\<in>set SELECTED_FEATS. raw enriched f ! p \<noteq> Null) [0..<?n]"
  let ?out = "snd (filter_rows ?mi)"
  have sel: "select enriched SELECTED_FEATS = Inr ?mi"
    using assms(3) by (rule select_all_present)
  have len: "length (raw enriched f) = ?n" if "f \<in> set SELECTED_FEATS" for f
    using assms(1,3) that by (simp add: wf_raw_length list_all_iff)
  have wf: "wf_df ?mi"
    by (simp add: wf_df_def list_all_iff len)
  have na: "row_has_na ?mi p = (\<exists>f\<in>set SELECTED_FEATS. raw enriched f ! p = Null)" for p
    by (simp add: row_has_na_def list_ex_iff isna_def)
  have out: "?out = rows_at ?mi ?keep"
    using filter_rows_rows_at [OF wf] by (simp add: na)
  have ix: "index ?out = map (\<lambda>p. index enriched ! p) ?keep"
    by (simp add: out rows_at_def)
  have le: "length (index ?out) \<le> ?n"
    using length_filter_le [of _ "[0..<?n]"] by (simp add: ix)
  have sub: "subseq (index ?out) (index enriched)"
    unfolding ix by (rule subseq_rows)
  have gone: "(index enriched ! p \<notin> set (index ?out))
      = (\<exists>f\<in>set SELECTED_FEATS. raw enriched f ! p = Null)" if "p < ?n" for p
  proof -
    have "(index enriched ! p \<in> set (index ?out)) = (p \<in> set ?keep)"
      using that assms(2) by (auto simp: ix nth_eq_iff_index_eq)
    then show ?thesis
      using that by auto
  qed
  have cols: "columns ?out
      = map (\<lambda>k. (k, map (\<lambda>p. raw enriched k ! p) ?keep)) SELECTED_FEATS"
    by (simp add: out rows_at_def)
  have cell: "index ?out ! q = index enriched ! (?keep ! q)
      \<and> (\<forall>f\<in>set SELECTED_FEATS. raw ?out f ! q = raw enriched f ! (?keep ! q))"
    if "q < length (index ?out)" for q
  proof -
    have q: "q < length ?keep"
      using that by (simp add: ix)
    have "raw ?out f = map (\<lambda>p. raw enriched f ! p) ?keep" if "f \<in> set SELECTED_FEATS" for f
      using cols that by (rule raw_selected)
    then show ?thesis
      using q by (simp add: ix)
  qed
  have loc: "out_df enriched ?out = Inr (rows_at enriched ?keep)"
    unfolding out_df_def ix by (rule loc_rows_positions) (use assms(2) in auto)
  show ?thesis
    unfolding Let_def using sel out le sub gone cell loc by blast
qed

lemma raw_ex_enriched:
  "f \<in> set SELECTED_FEATS \<Longrightarrow>
   raw ex_enriched f = (if f = ''Cari Oran'' then [Num 1, Null, Num 3] else [Num 1, Num 2, Num 3])"
  by (simp add: raw_def ex_enriched_def map_of_map_restrict)

theorem row_filter_keeps_complete_rows_witness:
  "wf_df ex_enriched \<and> distinct (index ex_enriched)
   \<and> list_all (present ex_enriched) SELECTED_FEATS
   \<and> (\<exists>mi. select ex_enriched SELECTED_FEATS = Inr mi
        \<and> index (snd (filter_rows mi)) = [0, 2]
        \<and> raw (snd (filter_rows mi)) ''Cari Oran'' = [Num 1, Num 3]
        \<and> raw (snd (filter_rows mi)) ''ROCE Orani'' = [Num 1, Num 3])"
proof -
  have wf: "wf_df ex_enriched"
    by (simp add: wf_df_def ex_enriched_def list_all_iff)
  have d: "distinct (index ex_enriched)"
    by (simp add: ex_enriched_def)
  have p: "list_all (present ex_enriched) SELECTED_FEATS"
    by (simp add: list_all_iff present_def ex_enriched_def map_of_map_restrict)
  have n: "[0..<length (index ex_enriched)] = [0, 1, 2]"
    by (simp add: ex_enriched_def upt_rec)
  have r: "\<forall>f\<in>set SELECTED_FEATS. raw ex_enriched f
      = (if f = ''Cari Oran'' then [Num 1, Null, Num 3] else [Num 1, Num 2, Num 3])"
    by (simp add: raw_ex_enriched)
  have keep: "filter (\<lambda>p. \<forall>f\<in>set SELECTED_FEATS. raw ex_enriched f ! p \<noteq> Null)
      [0..<length (index ex_enriched)] = [0, 2]"
    unfolding n using r by (auto simp: SELECTED_FEATS_def)
  have m: "''Cari Oran'' \<in> set SELECTED_FEATS" "''ROCE Orani'' \<in> set SELECTED_FEATS"
    by (simp_all add: SELECTED_FEATS_def)
  from row_filter_keeps_complete_rows [OF wf d p] obtain mi
    where mi: "select ex_enriched SELECTED_FEATS = Inr mi"
      and out: "snd (filter_rows mi) = rows_at mi [0, 2]"
      and cells: "\<forall>q<length (index (snd (filter_rows mi))).
        index (snd (filter_rows mi)) ! q = index ex_enriched ! ([0, 2] ! q)
        \<and> (\<forall>f\<in>set SELECTED_FEATS. raw (snd (filter_rows mi)) f ! q
              = raw ex_enriched f ! ([0, 2] ! q))"
    unfolding Let_def keep by blast
  have mi': "mi = \<lparr>index = index ex_enriched,
      columns = map (\<lambda>k. (k, raw ex_enriched k)) SELECTED_FEATS\<rparr>"
    using mi by (simp add: select_all_present [OF p])
  have ix: "index (snd (filter_rows mi)) = [0, 2]"
    unfolding out by (simp add: rows_at_def mi' ex_enriched_def)
  have "columns (snd (filter_rows mi))
      = map (\<lambda>k. (k, map (\<lambda>p. raw ex_enriched k ! p) [0, 2])) SELECTED_FEATS"
    unfolding out by (simp add: rows_at_def mi')
  then have raws: "raw (snd (filter_rows mi)) f = map (\<lambda>p. raw ex_enriched f ! p) [0, 2]"
    if "f \<in> set SELECTED_FEATS" for f
    using that by (rule raw_selected)
  show ?thesis
    using wf d p mi ix raws [OF m(1)] raws [OF m(2)]
    by (auto simp: raw_ex_enriched m)
qed

end
